theory Spec2Isabelle
  imports Main
begin

section \<open>JavaScript values, configuration objects and promises\<close>

text \<open>
  A configuration object is a JavaScript object: a finite mapping from property names to
  values. A property can be present with the value \<open>undefined\<close>, which is different from
  the property being absent; \<open>Object.assign\<close> copies such a property like any other.
\<close>

datatype jsvalue =
    JUndefined
  | JNull
  | JBool bool
  | JNum int
  | JStr string
  | JObj "(string \<times> jsvalue) list"

type_synonym config = "string \<rightharpoonup> jsvalue"

text \<open>A thrown value or the reason of a rejected promise.\<close>

datatype error = Error string | TypeError string

text \<open>
  The settled state of a promise, or the outcome of a call that can throw: \<open>Inl\<close> is the
  rejection (the exception), \<open>Inr\<close> the value.
\<close>

type_synonym 'a promise = "error + 'a"

text \<open>\<open>Object.assign(target, ...sources)\<close>: each source in turn overwrites the target, key by key.\<close>

definition Object_assign :: "config \<Rightarrow> config list \<Rightarrow> config" where
  "Object_assign target sources = foldl (++) target sources"

text \<open>Reading a property: an absent property reads as \<open>undefined\<close>.\<close>

definition getProp :: "config \<Rightarrow> string \<Rightarrow> jsvalue" where
  "getProp obj k = (case obj k of None \<Rightarrow> JUndefined | Some v \<Rightarrow> v)"

section \<open>The collaborators\<close>

text \<open>The options of \<open>resolveConfig\<close>: the object \<open>{ editorconfig?: boolean }\<close>.\<close>

type_synonym resolve_options = "bool option"

text \<open>
  A copy of the formatter (the interface \<open>Prettier\<close>): its version, \<open>format\<close>, which returns
  the formatted text or throws, and \<open>resolveConfig\<close>, whose promise gives the project
  configuration, \<open>null\<close> (here \<open>None\<close>) when there is none, or is rejected.
\<close>

record prettier =
  version :: string
  prettier_format :: "string \<Rightarrow> config \<Rightarrow> error + string"
  prettier_resolveConfig :: "string \<Rightarrow> resolve_options option \<Rightarrow> (config option) promise"

text \<open>The host configuration (\<open>PrettierVSCodeConfig\<close>).\<close>

record vscode_config =
  printWidth :: int
  tabWidth :: int
  singleQuote :: bool
  trailingComma :: string
  bracketSpacing :: bool
  jsxBracketSameLine :: bool
  parser :: string
  semi :: bool
  useTabs :: bool
  proseWrap :: string
  arrowParens :: string
  disableLanguages :: "string list"
  requireConfig :: bool

text \<open>A language of the formatter's support table; only its parsers are read here.\<close>

record language =
  parsers :: "string list"

text \<open>
  What the linter hands to its callback: \<open>{ results: [{ output, ... }, ...] }\<close>. The
  property \<open>output\<close> is read as it is: it can be any value, \<open>undefined\<close> too.
\<close>

record lint_result =
  lint_output :: jsvalue

record lint_report =
  results :: "lint_result list"

text \<open>
  The functions this module imports or requires, taken as parameters: \<open>getConfig\<close>,
  \<open>getParsersFromLanguageId\<close> and \<open>getGroup\<close> of \<open>utils\<close>, \<open>requireLocalPkg\<close>, the bundled
  formatter and the linter's \<open>lintText\<close> (its callback's \<open>err\<close> is \<open>Inl\<close>, its \<open>results\<close>
  \<open>Inr\<close>).
\<close>

record env =
  getConfig :: "string \<Rightarrow> vscode_config"
  requireLocalPkg :: "string \<Rightarrow> string \<Rightarrow> prettier"
  bundledPrettier :: prettier
  getParsersFromLanguageId :: "string \<Rightarrow> string \<Rightarrow> string option \<Rightarrow> string list"
  getGroup :: "string \<Rightarrow> language list"
  standard_lintText :: "string \<Rightarrow> config \<Rightarrow> error + lint_report"

section \<open>The host's document and edits\<close>

record position =
  line :: int
  character :: int

record doc_range =
  range_start :: position
  range_end :: position

record document =
  fileName :: string
  languageId :: string
  uri :: string
  isUntitled :: bool
  getText :: string
  lineTexts :: "string list"
  offsetAt :: "position \<Rightarrow> int"

record text_edit =
  edit_range :: doc_range
  newText :: jsvalue

definition lineCount :: "document \<Rightarrow> int" where
  "lineCount d = int (length (lineTexts d))"

text \<open>\<open>document.lineAt(n).text\<close>; the host throws when there is no such line.\<close>

definition lineAt :: "document \<Rightarrow> int \<Rightarrow> error + string" where
  "lineAt d n =
     (if 0 \<le> n \<and> n < lineCount d then Inr (lineTexts d ! nat n)
      else Inl (Error ''Illegal value for `line`''))"

text \<open>\<open>new Range(startLine, startCharacter, endLine, endCharacter)\<close>\<close>

definition Range :: "int \<Rightarrow> int \<Rightarrow> int \<Rightarrow> int \<Rightarrow> doc_range" where
  "Range sl sc el ec =
     \<lparr>range_start = \<lparr>line = sl, character = sc\<rparr>, range_end = \<lparr>line = el, character = ec\<rparr>\<rparr>"

text \<open>\<open>TextEdit.replace(range, newText)\<close>\<close>

definition TextEdit_replace :: "doc_range \<Rightarrow> jsvalue \<Rightarrow> text_edit" where
  "TextEdit_replace r s = \<lparr>edit_range = r, newText = s\<rparr>"

section \<open>The observable calls\<close>

text \<open>
  Every call that leaves the module is recorded, in the order it is made: the two
  diagnostics functions, the error report of the recovery wrapper, and the calls of the
  formatter's \<open>resolveConfig\<close> and \<open>format\<close> and of the linter. A function returns the events
  it has caused beside its outcome.
\<close>

datatype engine = LocalPrettier | BundledPrettier

datatype event =
    AddToOutput string
  | SetUsedModule string string bool
  | ReportError error string
  | ResolveConfig string "resolve_options option"
  | PrettierFormat engine string config
  | LintText string config

text \<open>\<open>p.then(f)\<close>: \<open>f\<close> runs on the value of a fulfilled promise; a rejection passes through.\<close>

definition then_p ::
  "'a promise \<times> event list \<Rightarrow> ('a \<Rightarrow> 'b promise \<times> event list) \<Rightarrow> 'b promise \<times> event list" where
  "then_p p f =
     (case fst p of
        Inl err \<Rightarrow> (Inl err, snd p)
      | Inr v \<Rightarrow> (fst (f v), snd p @ snd (f v)))"

text \<open>The events of a trace that are calls of the formatter or of the linter.\<close>

fun is_format_call :: "event \<Rightarrow> bool" where
  "is_format_call (PrettierFormat eng t cfg) = True"
| "is_format_call ev = False"

fun is_lint_call :: "event \<Rightarrow> bool" where
  "is_lint_call (LintText t cfg) = True"
| "is_lint_call ev = False"

fun is_error_report :: "event \<Rightarrow> bool" where
  "is_error_report (ReportError err f) = True"
| "is_error_report ev = False"

section \<open>The module\<close>

text \<open>\<open>standardLintText\<close>: the linter's callback interface as a promise.\<close>

definition standardLintText :: "env \<Rightarrow> string \<Rightarrow> config \<Rightarrow> lint_report promise \<times> event list" where
  "standardLintText env text options =
     (case standard_lintText env text options of
        Inl err \<Rightarrow> (Inl err, [LintText text options])
      | Inr res \<Rightarrow> (Inr res, [LintText text options]))"

record resolve_config_result =
  config :: "config option"
  error :: "error option"

definition resolveConfig ::
  "env \<Rightarrow> string \<Rightarrow> resolve_options option \<Rightarrow> resolve_config_result promise \<times> event list" where
  "resolveConfig env filePath options =
     (case prettier_resolveConfig (bundledPrettier env) filePath options of
        Inr cfg \<Rightarrow> (Inr \<lparr>config = cfg, error = None\<rparr>, [ResolveConfig filePath options])
      | Inl err \<Rightarrow> (Inr \<lparr>config = None, error = Some err\<rparr>, [ResolveConfig filePath options]))"

definition hasPrettierConfig :: "env \<Rightarrow> string \<Rightarrow> bool promise \<times> event list" where
  "hasPrettierConfig env filePath =
     then_p (resolveConfig env filePath None) (\<lambda>r. (Inr (config r \<noteq> None), []))"

definition mergeConfig :: "bool \<Rightarrow> config \<Rightarrow> config \<Rightarrow> config \<Rightarrow> config" where
  "mergeConfig hasPrettierConfig' additionalConfig prettierConfig vscodeConfig =
     (if hasPrettierConfig'
      then Object_assign [''parser'' \<mapsto> getProp vscodeConfig ''parser'']
             [prettierConfig, additionalConfig]
      else Object_assign vscodeConfig [prettierConfig, additionalConfig])"

text \<open>Modelled from the spec: \<open>safeExecution\<close> of \<open>errorHandler\<close>, which is not among the
  sources. It wraps the combined format and autofix promise: on success it returns the
  produced text; on failure it reports the error through the diagnostic channel and
  returns the original, unformatted input text.
\<close>

definition safeExecution ::
  "jsvalue promise \<times> event list \<Rightarrow> string \<Rightarrow> string \<Rightarrow> jsvalue promise \<times> event list" where
  "safeExecution cb defaultText fileName' =
     (case fst cb of
        Inr returnValue \<Rightarrow> (Inr returnValue, snd cb)
      | Inl err \<Rightarrow> (Inr (JStr defaultText), snd cb @ [ReportError err fileName']))"

text \<open>The choice of the parser in \<open>format\<close>: the pair of \<open>parser\<close> and \<open>useBundled\<close>.\<close>

definition selectParser :: "env \<Rightarrow> vscode_config \<Rightarrow> prettier \<Rightarrow> document \<Rightarrow> string \<times> bool" where
  "selectParser env vscodeConfig localPrettier doc =
     (let dynamicParsers = getParsersFromLanguageId env (languageId doc) (version localPrettier)
                             (if isUntitled doc then None else Some (fileName doc))
      in if dynamicParsers = [] then
           (let bundledParsers = getParsersFromLanguageId env (languageId doc)
                                   (version (bundledPrettier env))
                                   (if isUntitled doc then None else Some (fileName doc))
            in (case bundledParsers of
                  [] \<Rightarrow> ''babylon''
                | p # ps \<Rightarrow> if p = [] then ''babylon'' else p, True))
         else if parser vscodeConfig \<in> set dynamicParsers then (parser vscodeConfig, False)
         else (hd dynamicParsers, False))"

definition doesParserSupportEslint :: "env \<Rightarrow> string \<Rightarrow> bool" where
  "doesParserSupportEslint env parser' =
     list_ex (\<lambda>lang. parser' \<in> set (parsers lang)) (getGroup env ''JavaScript'')"

text \<open>The object literal that \<open>format\<close> passes to \<open>mergeConfig\<close> as the host layer.\<close>

definition hostLayer :: "vscode_config \<Rightarrow> string \<Rightarrow> config" where
  "hostLayer vscodeConfig parser' =
     [''printWidth'' \<mapsto> JNum (printWidth vscodeConfig),
      ''tabWidth'' \<mapsto> JNum (tabWidth vscodeConfig),
      ''singleQuote'' \<mapsto> JBool (singleQuote vscodeConfig),
      ''trailingComma'' \<mapsto> JStr (trailingComma vscodeConfig),
      ''bracketSpacing'' \<mapsto> JBool (bracketSpacing vscodeConfig),
      ''jsxBracketSameLine'' \<mapsto> JBool (jsxBracketSameLine vscodeConfig),
      ''parser'' \<mapsto> JStr parser',
      ''semi'' \<mapsto> JBool (semi vscodeConfig),
      ''useTabs'' \<mapsto> JBool (useTabs vscodeConfig),
      ''proseWrap'' \<mapsto> JStr (proseWrap vscodeConfig),
      ''arrowParens'' \<mapsto> JStr (arrowParens vscodeConfig)]"

definition lintOptions :: config where
  "lintOptions = [''fix'' \<mapsto> JBool True, ''parser'' \<mapsto> JStr ''babel-eslint'']"

text \<open>
  \<open>obj => obj.results[0].output\<close>: reading a property of \<open>undefined\<close> throws; the value
  of \<open>output\<close> is passed on as it is, so the promise of \<open>format\<close> resolves to \<open>undefined\<close>
  when the first result has no output.
\<close>

definition firstOutput :: "lint_report \<Rightarrow> jsvalue promise \<times> event list" where
  "firstOutput obj =
     (case results obj of
        [] \<Rightarrow> (Inl (TypeError ''Cannot read property output of undefined''), [])
      | r # rs \<Rightarrow> (Inr (lint_output r), []))"

definition fallbackWarning :: "prettier \<Rightarrow> string \<Rightarrow> prettier \<Rightarrow> string" where
  "fallbackWarning localPrettier languageId' bundled =
     ''prettier@'' @ version localPrettier @ '' doesn'' @ [CHR 0x27] @ ''t support '' @ languageId'
       @ ''. '' @ ''Falling back to bundled prettier@'' @ version bundled @ ''.''"

definition resolveFailure :: "string \<Rightarrow> string" where
  "resolveFailure fileName' =
     ''Failed to resolve config for '' @ fileName'
       @ ''. Falling back to the default config settings.''"

definition format :: "env \<Rightarrow> string \<Rightarrow> document \<Rightarrow> config \<Rightarrow> jsvalue promise \<times> event list" where
  "format env text doc customOptions =
     (let vscodeConfig = getConfig env (uri doc);
          localPrettier = requireLocalPkg env (fileName doc) ''prettier''
      in if languageId doc \<in> set (disableLanguages vscodeConfig) then (Inr (JStr text), [])
         else
           let sel = selectParser env vscodeConfig localPrettier doc;
               parser' = fst sel;
               useBundled = snd sel;
               supportsEslint = doesParserSupportEslint env parser'
           in then_p (hasPrettierConfig env (fileName doc)) (\<lambda>hasConfig.
                if \<not> hasConfig \<and> requireConfig vscodeConfig then (Inr (JStr text), [])
                else
                  then_p (resolveConfig env (fileName doc) (Some (Some True))) (\<lambda>res.
                    let fileOptions = config res;
                        logged = (case error res of
                                    Some err \<Rightarrow> [AddToOutput (resolveFailure (fileName doc))]
                                  | None \<Rightarrow> []);
                        prettierOptions =
                          mergeConfig hasConfig customOptions
                            (case fileOptions of None \<Rightarrow> Map.empty | Some c \<Rightarrow> c)
                            (hostLayer vscodeConfig parser')
                    in if \<not> supportsEslint \<and> useBundled then
                         safeExecution
                           (then_p
                              (then_p
                                 (prettier_format (bundledPrettier env) text prettierOptions,
                                  logged @
                                  [AddToOutput
                                     (fallbackWarning localPrettier (languageId doc)
                                        (bundledPrettier env)),
                                   SetUsedModule ''prettier'' (version (bundledPrettier env)) True,
                                   PrettierFormat BundledPrettier text prettierOptions])
                                 (\<lambda>pretty. standardLintText env pretty lintOptions))
                              firstOutput)
                           text (fileName doc)
                       else
                         safeExecution
                           (then_p
                              (then_p
                                 (prettier_format localPrettier text prettierOptions,
                                  logged @
                                  [SetUsedModule ''prettier'' (version localPrettier) False,
                                   PrettierFormat LocalPrettier text prettierOptions])
                                 (\<lambda>pretty. standardLintText env pretty lintOptions))
                              firstOutput)
                           text (fileName doc))))"

definition fullDocumentRange :: "document \<Rightarrow> error + doc_range" where
  "fullDocumentRange d =
     (let lastLineId = lineCount d - 1
      in case lineAt d lastLineId of
           Inl err \<Rightarrow> Inl err
         | Inr t \<Rightarrow> Inr (Range 0 0 lastLineId (int (length t))))"

text \<open>The class \<open>PrettierEditProvider\<close>; its one field is the ignore predicate.\<close>

record provider =
  fileIsIgnored :: "string \<Rightarrow> bool"

definition provideEdits ::
  "env \<Rightarrow> provider \<Rightarrow> document \<Rightarrow> config \<Rightarrow> (text_edit list) promise \<times> event list" where
  "provideEdits env this doc options =
     (if \<not> isUntitled doc \<and> fileIsIgnored this (fileName doc) then (Inr [], [])
      else then_p (format env (getText doc) doc options) (\<lambda>code.
             case fullDocumentRange doc of
               Inl err \<Rightarrow> (Inl err, [])
             | Inr r \<Rightarrow> (Inr [TextEdit_replace r code], [])))"

definition provideDocumentRangeFormattingEdits ::
  "env \<Rightarrow> provider \<Rightarrow> document \<Rightarrow> doc_range \<Rightarrow> (text_edit list) promise \<times> event list" where
  "provideDocumentRangeFormattingEdits env this doc rng =
     provideEdits env this doc
       [''rangeStart'' \<mapsto> JNum (offsetAt doc (range_start rng)),
        ''rangeEnd'' \<mapsto> JNum (offsetAt doc (range_end rng))]"

definition provideDocumentFormattingEdits ::
  "env \<Rightarrow> provider \<Rightarrow> document \<Rightarrow> (text_edit list) promise \<times> event list" where
  "provideDocumentFormattingEdits env this doc = provideEdits env this doc Map.empty"

section \<open>Notions used to state the properties\<close>

text \<open>
  The values of the local variables of \<open>format\<close>, as functions of the request: whether a
  project configuration exists (\<open>hasConfig\<close>), the selected parser and \<open>useBundled\<close>, the
  engine that formats, the project-file layer (\<open>fileOptions || {}\<close>) and the merged
  configuration (\<open>prettierOptions\<close>). Lemma \<open>format_run\<close> below shows that \<open>format\<close>
  computes with exactly these.
\<close>

definition hasConfigOf :: "env \<Rightarrow> document \<Rightarrow> bool" where
  "hasConfigOf env doc = (fst (hasPrettierConfig env (fileName doc)) = Inr True)"

definition parserOf :: "env \<Rightarrow> document \<Rightarrow> string" where
  "parserOf env doc =
     fst (selectParser env (getConfig env (uri doc))
            (requireLocalPkg env (fileName doc) ''prettier'') doc)"

definition useBundledOf :: "env \<Rightarrow> document \<Rightarrow> bool" where
  "useBundledOf env doc =
     snd (selectParser env (getConfig env (uri doc))
            (requireLocalPkg env (fileName doc) ''prettier'') doc)"

definition engineOf :: "env \<Rightarrow> document \<Rightarrow> engine" where
  "engineOf env doc =
     (if \<not> doesParserSupportEslint env (parserOf env doc) \<and> useBundledOf env doc
      then BundledPrettier else LocalPrettier)"

definition prettierOf :: "env \<Rightarrow> document \<Rightarrow> engine \<Rightarrow> prettier" where
  "prettierOf env doc eng =
     (case eng of
        BundledPrettier \<Rightarrow> bundledPrettier env
      | LocalPrettier \<Rightarrow> requireLocalPkg env (fileName doc) ''prettier'')"

definition fileOptionsOf :: "env \<Rightarrow> document \<Rightarrow> config" where
  "fileOptionsOf env doc =
     (case fst (resolveConfig env (fileName doc) (Some (Some True))) of
        Inr res \<Rightarrow> (case config res of None \<Rightarrow> Map.empty | Some c \<Rightarrow> c)
      | Inl err \<Rightarrow> Map.empty)"

definition prettierOptionsOf :: "env \<Rightarrow> document \<Rightarrow> config \<Rightarrow> config" where
  "prettierOptionsOf env doc customOptions =
     mergeConfig (hasConfigOf env doc) customOptions (fileOptionsOf env doc)
       (hostLayer (getConfig env (uri doc)) (parserOf env doc))"

text \<open>The two early returns of \<open>format\<close>: a disabled language, a required configuration that is missing.\<close>

definition skips :: "env \<Rightarrow> document \<Rightarrow> bool" where
  "skips env doc =
     (languageId doc \<in> set (disableLanguages (getConfig env (uri doc))) \<or>
      (\<not> hasConfigOf env doc \<and> requireConfig (getConfig env (uri doc))))"

text \<open>The events of a request that is not skipped, up to the call of the formatter.\<close>

definition preamble :: "env \<Rightarrow> document \<Rightarrow> event list" where
  "preamble env doc =
     [ResolveConfig (fileName doc) None, ResolveConfig (fileName doc) (Some (Some True))]
     @ (case prettier_resolveConfig (bundledPrettier env) (fileName doc) (Some (Some True)) of
          Inl err \<Rightarrow> [AddToOutput (resolveFailure (fileName doc))]
        | Inr c \<Rightarrow> [])
     @ (case engineOf env doc of
          BundledPrettier \<Rightarrow>
            [AddToOutput (fallbackWarning (requireLocalPkg env (fileName doc) ''prettier'')
                            (languageId doc) (bundledPrettier env)),
             SetUsedModule ''prettier'' (version (bundledPrettier env)) True]
        | LocalPrettier \<Rightarrow>
            [SetUsedModule ''prettier''
               (version (requireLocalPkg env (fileName doc) ''prettier'')) False])"

text \<open>The promise chain that both branches of \<open>format\<close> hand to \<open>safeExecution\<close>.\<close>

definition pipeline ::
  "env \<Rightarrow> prettier \<Rightarrow> engine \<Rightarrow> string \<Rightarrow> config \<Rightarrow> string \<Rightarrow> event list
     \<Rightarrow> jsvalue promise \<times> event list" where
  "pipeline env P eng text opts fname pre =
     safeExecution
       (then_p
          (then_p (prettier_format P text opts, pre @ [PrettierFormat eng text opts])
             (\<lambda>pretty. standardLintText env pretty lintOptions))
          firstOutput)
       text fname"

text \<open>A recorded call of the formatter or of the linter that threw or was rejected.\<close>

fun failed_call :: "env \<Rightarrow> document \<Rightarrow> event \<Rightarrow> bool" where
  "failed_call env doc (PrettierFormat eng t opts) =
     isl (prettier_format (prettierOf env doc eng) t opts)"
| "failed_call env doc (LintText t opts) = isl (standard_lintText env t opts)"
| "failed_call env doc ev = False"

text \<open>A message appended to the output channel.\<close>

fun is_output :: "string \<Rightarrow> event \<Rightarrow> bool" where
  "is_output s (AddToOutput m) = (m = s)"
| "is_output s ev = False"

text \<open>A call of the formatter whose options read \<open>v\<close> at the key \<open>parser\<close>.\<close>

fun passes_parser :: "jsvalue \<Rightarrow> event \<Rightarrow> bool" where
  "passes_parser v (PrettierFormat eng t opts) = (getProp opts ''parser'' = v)"
| "passes_parser v ev = False"

text \<open>An event that is not a call of the formatter, or is the call \<open>format(t, opts)\<close> of the engine \<open>eng\<close>.\<close>

fun formats_with :: "engine \<Rightarrow> string \<Rightarrow> config \<Rightarrow> event \<Rightarrow> bool" where
  "formats_with eng t opts (PrettierFormat eng' t' opts') = (eng' = eng \<and> t' = t \<and> opts' = opts)"
| "formats_with eng t opts ev = True"

section \<open>Concrete collaborators\<close>

definition exampleConfig :: vscode_config where
  "exampleConfig =
     \<lparr>printWidth = 80, tabWidth = 2, singleQuote = True, trailingComma = ''none'',
      bracketSpacing = True, jsxBracketSameLine = False, parser = ''babylon'', semi = True,
      useTabs = False, proseWrap = ''preserve'', arrowParens = ''avoid'',
      disableLanguages = [''markdown''], requireConfig = False\<rparr>"

text \<open>A formatter that appends a semicolon and finds no project configuration.\<close>

definition examplePrettier :: "string \<Rightarrow> prettier" where
  "examplePrettier v =
     \<lparr>version = v, prettier_format = (\<lambda>t opts. Inr (t @ '';'')),
      prettier_resolveConfig = (\<lambda>p opts. Inr None)\<rparr>"

text \<open>
  Version 1.0.0 knows the parsers of JavaScript only; version 1.14.0 knows TypeScript too.
\<close>

definition exampleParsers :: "string \<Rightarrow> string \<Rightarrow> string option \<Rightarrow> string list" where
  "exampleParsers lang v path =
     (if lang = ''javascript'' then [''babylon'', ''flow'']
      else if lang = ''typescript'' \<and> v = ''1.14.0'' then [''typescript'']
      else [])"

definition exampleGroup :: "string \<Rightarrow> language list" where
  "exampleGroup g = (if g = ''JavaScript'' then [\<lparr>parsers = [''babylon'', ''flow'']\<rparr>] else [])"

text \<open>A linter that has nothing to fix.\<close>

definition exampleLint :: "string \<Rightarrow> config \<Rightarrow> error + lint_report" where
  "exampleLint t opts = Inr \<lparr>results = [\<lparr>lint_output = JStr t\<rparr>]\<rparr>"

definition exampleEnv :: env where
  "exampleEnv =
     \<lparr>getConfig = (\<lambda>u. exampleConfig),
      requireLocalPkg = (\<lambda>f n. examplePrettier ''1.0.0''),
      bundledPrettier = examplePrettier ''1.14.0'',
      getParsersFromLanguageId = exampleParsers,
      getGroup = exampleGroup,
      standard_lintText = exampleLint\<rparr>"

definition exampleDoc :: "string \<Rightarrow> document" where
  "exampleDoc lang =
     \<lparr>fileName = ''/work/a.src'', languageId = lang, uri = ''file:///work/a.src'',
      isUntitled = False, getText = ''const x=1'', lineTexts = [''const x=1''],
      offsetAt = (\<lambda>p. character p)\<rparr>"

text \<open>The host requires a project configuration.\<close>

definition strictEnv :: env where
  "strictEnv = exampleEnv\<lparr>getConfig := (\<lambda>u. exampleConfig\<lparr>requireConfig := True\<rparr>)\<rparr>"

text \<open>The project-local formatter throws on every input.\<close>

definition brokenFormatEnv :: env where
  "brokenFormatEnv =
     exampleEnv\<lparr>requireLocalPkg :=
       (\<lambda>f n. (examplePrettier ''1.0.0'')
                 \<lparr>prettier_format := (\<lambda>t opts. Inl (Error ''SyntaxError''))\<rparr>)\<rparr>"

text \<open>The linter hands an error to its callback.\<close>

definition brokenLintEnv :: env where
  "brokenLintEnv = exampleEnv\<lparr>standard_lintText := (\<lambda>t opts. Inl (Error ''lint failed''))\<rparr>"

text \<open>The host requires a project configuration and its discovery is rejected.\<close>

definition brokenResolveEnv :: env where
  "brokenResolveEnv =
     strictEnv\<lparr>bundledPrettier :=
       (examplePrettier ''1.14.0'')
         \<lparr>prettier_resolveConfig := (\<lambda>p opts. Inl (Error ''EACCES''))\<rparr>\<rparr>"

text \<open>
  The project configuration is \<open>{ parser: undefined }\<close>, as a configuration file written
  in JavaScript can export it.
\<close>

definition undefinedParserEnv :: env where
  "undefinedParserEnv =
     exampleEnv\<lparr>bundledPrettier :=
       (examplePrettier ''1.14.0'')
         \<lparr>prettier_resolveConfig := (\<lambda>p opts. Inr (Some [''parser'' \<mapsto> JUndefined]))\<rparr>\<rparr>"

text \<open>The project configuration is \<open>{ parser: "flow", semi: false }\<close>.\<close>

definition flowConfigEnv :: env where
  "flowConfigEnv =
     exampleEnv\<lparr>bundledPrettier :=
       (examplePrettier ''1.14.0'')
         \<lparr>prettier_resolveConfig :=
            (\<lambda>p opts. Inr (Some [''parser'' \<mapsto> JStr ''flow'', ''semi'' \<mapsto> JBool False]))\<rparr>\<rparr>"

text \<open>A provider that ignores the example document's path, and one that ignores nothing.\<close>

definition ignoringProvider :: provider where
  "ignoringProvider = \<lparr>fileIsIgnored = (\<lambda>p. p = ''/work/a.src'')\<rparr>"

definition exampleProvider :: provider where
  "exampleProvider = \<lparr>fileIsIgnored = (\<lambda>p. False)\<rparr>"

section \<open>How \<open>format\<close> runs\<close>

lemma then_p_Inr [simp]: "then_p (Inr v, evs) f = (fst (f v), evs @ snd (f v))"
  by (simp add: then_p_def)

lemma then_p_Inl [simp]: "then_p (Inl e, evs) f = (Inl e, evs)"
  by (simp add: then_p_def)

lemma Object_assign_two [simp]: "Object_assign t [a, b] = t ++ a ++ b"
  by (simp add: Object_assign_def)

lemma hasPrettierConfig_eq:
  "hasPrettierConfig env p =
     (Inr (case prettier_resolveConfig (bundledPrettier env) p None of
             Inr (Some c) \<Rightarrow> True | _ \<Rightarrow> False),
      [ResolveConfig p None])"
  by (simp add: hasPrettierConfig_def resolveConfig_def then_p_def split: sum.splits option.splits)

lemma hasConfigOf_eq:
  "hasConfigOf env doc =
     (case prettier_resolveConfig (bundledPrettier env) (fileName doc) None of
        Inr (Some c) \<Rightarrow> True | _ \<Rightarrow> False)"
  by (simp add: hasConfigOf_def hasPrettierConfig_eq)

lemma format_disabled:
  "languageId doc \<in> set (disableLanguages (getConfig env (uri doc))) \<Longrightarrow>
   format env text doc co = (Inr (JStr text), [])"
  by (simp add: format_def)

lemma format_required_config_missing:
  assumes "languageId doc \<notin> set (disableLanguages (getConfig env (uri doc)))"
    and "requireConfig (getConfig env (uri doc))"
    and "\<not> hasConfigOf env doc"
  shows "format env text doc co = (Inr (JStr text), [ResolveConfig (fileName doc) None])"
proof -
  from assms(3) have "hasPrettierConfig env (fileName doc) = (Inr False, [ResolveConfig (fileName doc) None])"
    by (simp add: hasConfigOf_def hasPrettierConfig_eq)
  with assms(1,2) show ?thesis
    by (simp add: format_def Let_def)
qed

lemma format_skips:
  assumes "skips env doc"
  shows "fst (format env text doc co) = Inr (JStr text)"
    and "\<not> list_ex is_format_call (snd (format env text doc co))"
    and "\<not> list_ex is_lint_call (snd (format env text doc co))"
proof -
  have "format env text doc co = (Inr (JStr text), []) \<or>
        format env text doc co = (Inr (JStr text), [ResolveConfig (fileName doc) None])"
    using assms format_disabled [of doc env "text" co]
      format_required_config_missing [of doc env "text" co]
    by (auto simp: skips_def)
  then show "fst (format env text doc co) = Inr (JStr text)"
    and "\<not> list_ex is_format_call (snd (format env text doc co))"
    and "\<not> list_ex is_lint_call (snd (format env text doc co))"
    by auto
qed

lemma pipeline_prefix:
  "pipeline env P eng text opts fname (a @ b) =
     (fst (pipeline env P eng text opts fname b), a @ snd (pipeline env P eng text opts fname b))"
  by (simp add: pipeline_def safeExecution_def then_p_def standardLintText_def firstOutput_def
        split: sum.splits list.splits)

lemma format_run:
  assumes "\<not> skips env doc"
  shows "format env text doc co =
           pipeline env (prettierOf env doc (engineOf env doc)) (engineOf env doc) text
             (prettierOptionsOf env doc co) (fileName doc) (preamble env doc)"
proof -
  let ?vc = "getConfig env (uri doc)"
  let ?lp = "requireLocalPkg env (fileName doc) ''prettier''"
  let ?bp = "bundledPrettier env"
  let ?f = "fileName doc"
  let ?r2 = "prettier_resolveConfig ?bp ?f (Some (Some True))"
  let ?opts = "prettierOptionsOf env doc co"
  let ?logged = "case ?r2 of Inl err \<Rightarrow> [AddToOutput (resolveFailure ?f)] | Inr c \<Rightarrow> []"
  let ?bundled = "\<not> doesParserSupportEslint env (fst (selectParser env ?vc ?lp doc))
                   \<and> snd (selectParser env ?vc ?lp doc)"
  from assms have nd: "languageId doc \<notin> set (disableLanguages ?vc)"
    and ns: "\<not> (\<not> hasConfigOf env doc \<and> requireConfig ?vc)"
    by (simp_all add: skips_def)
  obtain hc where hp: "hasPrettierConfig env ?f = (Inr hc, [ResolveConfig ?f None])"
    by (simp add: hasPrettierConfig_eq)
  then have hc: "hasConfigOf env doc = hc"
    by (simp add: hasConfigOf_def)
  with ns have ns': "(\<not> hc \<and> requireConfig ?vc) = False"
    by simp
  obtain res where rc:
    "resolveConfig env ?f (Some (Some True)) = (Inr res, [ResolveConfig ?f (Some (Some True))])"
    by (cases ?r2) (simp_all add: resolveConfig_def)
  have lg: "(case error res of Some err \<Rightarrow> [AddToOutput (resolveFailure ?f)] | None \<Rightarrow> [])
              = ?logged"
    using rc by (cases ?r2) (auto simp: resolveConfig_def)
  have fo: "(case config res of None \<Rightarrow> Map.empty | Some c \<Rightarrow> c) = fileOptionsOf env doc"
    using rc by (simp add: fileOptionsOf_def)
  have po: "mergeConfig hc co (fileOptionsOf env doc)
              (hostLayer ?vc (fst (selectParser env ?vc ?lp doc))) = ?opts"
    by (simp add: prettierOptionsOf_def parserOf_def hc)
  have bundled: "safeExecution
       (then_p (then_p (prettier_format ?bp text ?opts,
                  ?logged @ [w, s, PrettierFormat BundledPrettier text ?opts])
                 (\<lambda>pretty. standardLintText env pretty lintOptions)) firstOutput)
       text ?f = pipeline env ?bp BundledPrettier text ?opts ?f (?logged @ [w, s])" for w s
    by (simp add: pipeline_def)
  have local: "safeExecution
       (then_p (then_p (prettier_format ?lp text ?opts,
                  ?logged @ [s, PrettierFormat LocalPrettier text ?opts])
                 (\<lambda>pretty. standardLintText env pretty lintOptions)) firstOutput)
       text ?f = pipeline env ?lp LocalPrettier text ?opts ?f (?logged @ [s])" for s
    by (simp add: pipeline_def)
  have pre: "preamble env doc =
      [ResolveConfig ?f None] @ [ResolveConfig ?f (Some (Some True))]
        @ (?logged @ (case engineOf env doc of
             BundledPrettier \<Rightarrow>
               [AddToOutput (fallbackWarning ?lp (languageId doc) ?bp),
                SetUsedModule ''prettier'' (version ?bp) True]
           | LocalPrettier \<Rightarrow> [SetUsedModule ''prettier'' (version ?lp) False]))"
    by (simp add: preamble_def)
  show ?thesis
  proof (cases "engineOf env doc")
    case BundledPrettier
    then have b: "?bundled = True"
      by (simp add: engineOf_def parserOf_def useBundledOf_def split: if_splits)
    have "format env text doc co =
            then_p (Inr hc, [ResolveConfig ?f None]) (\<lambda>h.
              then_p (Inr res, [ResolveConfig ?f (Some (Some True))]) (\<lambda>r.
                pipeline env ?bp BundledPrettier text ?opts ?f (?logged @
                   [AddToOutput (fallbackWarning ?lp (languageId doc) ?bp),
                    SetUsedModule ''prettier'' (version ?bp) True])))"
      unfolding format_def Let_def hp rc
      by (simp only: nd if_False then_p_Inr ns' b if_True lg fo po bundled fst_conv snd_conv)
    then show ?thesis
      by (simp only: then_p_Inr pre BundledPrettier prettierOf_def engine.case pipeline_prefix
            fst_conv snd_conv)
  next
    case LocalPrettier
    then have b: "?bundled = False"
      by (simp add: engineOf_def parserOf_def useBundledOf_def split: if_splits)
    have "format env text doc co =
            then_p (Inr hc, [ResolveConfig ?f None]) (\<lambda>h.
              then_p (Inr res, [ResolveConfig ?f (Some (Some True))]) (\<lambda>r.
                pipeline env ?lp LocalPrettier text ?opts ?f (?logged @
                   [SetUsedModule ''prettier'' (version ?lp) False])))"
      unfolding format_def Let_def hp rc
      by (simp only: nd if_False then_p_Inr ns' b if_True lg fo po local fst_conv snd_conv)
    then show ?thesis
      by (simp only: then_p_Inr pre LocalPrettier prettierOf_def engine.case pipeline_prefix
            fst_conv snd_conv)
  qed
qed

text \<open>The four ways the chain of formatter and linter can end.\<close>

lemma pipeline_format_fails:
  "prettier_format P text opts = Inl e \<Longrightarrow>
   pipeline env P eng text opts fname pre =
     (Inr (JStr text), pre @ [PrettierFormat eng text opts, ReportError e fname])"
  by (simp add: pipeline_def safeExecution_def)

lemma pipeline_lint_fails:
  "prettier_format P text opts = Inr pretty \<Longrightarrow>
   standard_lintText env pretty lintOptions = Inl e \<Longrightarrow>
   pipeline env P eng text opts fname pre =
     (Inr (JStr text), pre @ [PrettierFormat eng text opts, LintText pretty lintOptions,
                       ReportError e fname])"
  by (simp add: pipeline_def safeExecution_def standardLintText_def)

lemma pipeline_no_results:
  "prettier_format P text opts = Inr pretty \<Longrightarrow>
   standard_lintText env pretty lintOptions = Inr rep \<Longrightarrow> results rep = [] \<Longrightarrow>
   pipeline env P eng text opts fname pre =
     (Inr (JStr text), pre @ [PrettierFormat eng text opts, LintText pretty lintOptions,
        ReportError (TypeError ''Cannot read property output of undefined'') fname])"
  by (simp add: pipeline_def safeExecution_def standardLintText_def firstOutput_def)

lemma pipeline_succeeds:
  "prettier_format P text opts = Inr pretty \<Longrightarrow>
   standard_lintText env pretty lintOptions = Inr rep \<Longrightarrow> results rep = r # rs \<Longrightarrow>
   pipeline env P eng text opts fname pre =
     (Inr (lint_output r), pre @ [PrettierFormat eng text opts, LintText pretty lintOptions])"
  by (simp add: pipeline_def safeExecution_def standardLintText_def firstOutput_def)

lemma preamble_no_calls:
  "\<not> list_ex is_format_call (preamble env doc)"
  "\<not> list_ex is_lint_call (preamble env doc)"
  "\<not> list_ex is_error_report (preamble env doc)"
  "\<not> list_ex (failed_call env doc) (preamble env doc)"
  "list_all (formats_with eng t opts) (preamble env doc)"
  "\<not> list_ex (passes_parser v) (preamble env doc)"
  by (simp_all add: preamble_def split: sum.splits engine.splits)

text \<open>The promise of \<open>format\<close> is never rejected.\<close>

lemma format_never_rejects: "\<exists>t. fst (format env text doc co) = Inr t"
proof (cases "skips env doc")
  case True
  then show ?thesis by (simp add: format_skips(1))
next
  case False
  then show ?thesis
    by (simp add: format_run pipeline_def safeExecution_def split: sum.splits)
qed

section \<open>The events of a request\<close>

lemma pipeline_events:
  "snd (pipeline env P eng text opts fname pre) =
     pre @ PrettierFormat eng text opts #
       (case prettier_format P text opts of
          Inl e \<Rightarrow> [ReportError e fname]
        | Inr pretty \<Rightarrow> LintText pretty lintOptions #
            (case standard_lintText env pretty lintOptions of
               Inl e \<Rightarrow> [ReportError e fname]
             | Inr rep \<Rightarrow> (case results rep of
                  [] \<Rightarrow> [ReportError (TypeError ''Cannot read property output of undefined'') fname]
                | r # rs \<Rightarrow> [])))"
  by (simp add: pipeline_def safeExecution_def then_p_def standardLintText_def firstOutput_def
        split: sum.splits list.splits)

lemma pipeline_value:
  "fst (pipeline env P eng text opts fname pre) =
     Inr (case prettier_format P text opts of
            Inl e \<Rightarrow> JStr text
          | Inr pretty \<Rightarrow>
              (case standard_lintText env pretty lintOptions of
                 Inl e \<Rightarrow> JStr text
               | Inr rep \<Rightarrow> (case results rep of [] \<Rightarrow> JStr text | r # rs \<Rightarrow> lint_output r)))"
  by (simp add: pipeline_def safeExecution_def then_p_def standardLintText_def firstOutput_def
        split: sum.splits list.splits)

lemma failed_call_is_call:
  "failed_call env doc ev \<Longrightarrow> is_format_call ev \<or> is_lint_call ev"
  by (cases ev) simp_all

lemma format_calls:
  "list_all (formats_with (engineOf env doc) text (prettierOptionsOf env doc co))
     (snd (format env text doc co))"
proof (cases "skips env doc")
  case True
  have "\<not> is_format_call ev \<Longrightarrow> formats_with eng t opts ev" for ev eng t opts
    by (cases ev) simp_all
  with format_skips(2) [OF True, of "text" co] show ?thesis
    by (auto simp: list_all_iff list_ex_iff)
next
  case False
  then show ?thesis
    by (simp add: format_run pipeline_events preamble_no_calls split: sum.splits list.splits)
qed

lemma provideEdits_events:
  "snd (provideEdits env this doc co) =
     (if \<not> isUntitled doc \<and> fileIsIgnored this (fileName doc) then []
      else snd (format env (getText doc) doc co))"
  by (simp add: provideEdits_def then_p_def split: sum.splits)

lemma provideEdits_value:
  assumes "fst (provideEdits env this doc co) = Inr edits"
  shows "edits = [] \<or>
         (\<exists>code. edits = [TextEdit_replace
            (Range 0 0 (lineCount doc - 1) (int (length (last (lineTexts doc))))) code])"
proof (cases "\<not> isUntitled doc \<and> fileIsIgnored this (fileName doc)")
  case True
  with assms show ?thesis by (simp add: provideEdits_def)
next
  case False
  obtain code where c: "fst (format env (getText doc) doc co) = Inr code"
    using format_never_rejects by blast
  from assms False c obtain r where r: "fullDocumentRange doc = Inr r"
    and e: "edits = [TextEdit_replace r code]"
    by (auto simp: provideEdits_def then_p_def split: sum.splits)
  from r have "lineTexts doc \<noteq> []"
    by (auto simp: fullDocumentRange_def lineAt_def lineCount_def Let_def split: if_splits)
  then have "lineTexts doc ! nat (int (length (lineTexts doc)) - 1) = last (lineTexts doc)"
    by (simp add: last_conv_nth nat_diff_distrib')
  with r have "r = Range 0 0 (lineCount doc - 1) (int (length (last (lineTexts doc))))"
    by (auto simp: fullDocumentRange_def lineAt_def lineCount_def Let_def split: if_splits)
  with e show ?thesis by blast
qed

text \<open>The example request: JavaScript, no project configuration, both stages succeed.\<close>

lemma example_not_skipped: "\<not> skips exampleEnv (exampleDoc ''javascript'')"
  by (simp add: skips_def hasConfigOf_eq exampleEnv_def exampleDoc_def exampleConfig_def
        examplePrettier_def)

lemma example_engine: "engineOf exampleEnv (exampleDoc ''javascript'') = LocalPrettier"
  by (simp add: engineOf_def parserOf_def useBundledOf_def selectParser_def
        doesParserSupportEslint_def exampleEnv_def exampleDoc_def exampleConfig_def
        exampleParsers_def exampleGroup_def examplePrettier_def)

lemma example_value:
  "fst (format exampleEnv ''const x=1'' (exampleDoc ''javascript'') co) = Inr (JStr ''const x=1;'')"
  by (simp add: format_run [OF example_not_skipped] pipeline_value example_engine prettierOf_def)
     (simp add: exampleEnv_def examplePrettier_def exampleLint_def)

lemma format_skips_events:
  assumes "skips env doc"
  shows "snd (format env text doc co) = []
         \<or> snd (format env text doc co) = [ResolveConfig (fileName doc) None]"
proof (cases "languageId doc \<in> set (disableLanguages (getConfig env (uri doc)))")
  case True
  then show ?thesis by (simp add: format_disabled)
next
  case False
  with assms show ?thesis
    by (simp add: skips_def format_required_config_missing)
qed

lemma format_formatter_calls:
  "filter is_format_call (snd (format env text doc co)) =
     (if skips env doc then []
      else [PrettierFormat (engineOf env doc) text (prettierOptionsOf env doc co)])"
proof (cases "skips env doc")
  case True
  with format_skips_events [OF True, of "text" co] show ?thesis
    by auto
next
  case False
  have "filter is_format_call (preamble env doc) = []"
    using preamble_no_calls(1) [of env doc]
    by (auto simp: filter_empty_conv list_ex_iff)
  with False show ?thesis
    by (simp add: format_run pipeline_events split: sum.splits list.splits)
qed

lemma format_skips_no_warning:
  assumes "skips env doc"
  shows "filter (is_output w) (snd (format env text doc co)) = []"
  using format_skips_events [OF assms, of "text" co] by auto

lemma format_resolves_output:
  assumes "\<not> skips env doc"
    and "prettier_format (prettierOf env doc (engineOf env doc)) text
           (prettierOptionsOf env doc co) = Inr pretty"
    and "standard_lintText env pretty lintOptions = Inr rep"
    and "results rep = r # rs"
  shows "fst (format env text doc co) = Inr (lint_output r)"
  using assms by (simp add: format_run pipeline_value)

lemma provideEdits_result:
  assumes "\<not> (\<not> isUntitled doc \<and> fileIsIgnored this (fileName doc))"
    and "lineTexts doc \<noteq> []"
  shows "\<exists>code. fst (format env (getText doc) doc co) = Inr code
           \<and> fst (provideEdits env this doc co) =
               Inr [TextEdit_replace
                      (Range 0 0 (lineCount doc - 1) (int (length (last (lineTexts doc))))) code]"
proof -
  obtain code where c: "fst (format env (getText doc) doc co) = Inr code"
    using format_never_rejects by blast
  from assms(2) have "lineTexts doc ! nat (int (length (lineTexts doc)) - 1) = last (lineTexts doc)"
    by (simp add: last_conv_nth nat_diff_distrib')
  with assms(2) have "fullDocumentRange doc =
      Inr (Range 0 0 (lineCount doc - 1) (int (length (last (lineTexts doc)))))"
    by (simp add: fullDocumentRange_def lineAt_def lineCount_def Let_def)
  with assms(1) c show ?thesis
    by (simp add: provideEdits_def then_p_def)
qed

section \<open>The claims\<close>

text \<open>
  C5. For every document whose language identifier is in the host configuration's
  \<open>disableLanguages\<close> list, \<open>format\<close> returns the input text exactly, and it makes no call
  at all: neither the formatter nor the linter is invoked.
\<close>

theorem format_disabled_language:
  assumes "languageId doc \<in> set (disableLanguages (getConfig env (uri doc)))"
  shows "format env text doc customOptions = (Inr (JStr text), [])"
  using assms by (rule format_disabled)

theorem format_disabled_language_witness:
  "languageId (exampleDoc ''markdown'')
     \<in> set (disableLanguages (getConfig exampleEnv (uri (exampleDoc ''markdown''))))
   \<and> format exampleEnv ''# title'' (exampleDoc ''markdown'') Map.empty = (Inr (JStr ''# title''), [])"
  using format_disabled_language [of "exampleDoc ''markdown''" exampleEnv "''# title''" Map.empty]
  by (simp add: exampleDoc_def exampleEnv_def exampleConfig_def)

text \<open>
  C6. For every document, when the host configuration's \<open>requireConfig\<close> flag is true and
  no project configuration resolves for the document's path, \<open>format\<close> returns the input
  text exactly and the formatter (and the linter) is not invoked.
\<close>

theorem format_requires_config:
  assumes "requireConfig (getConfig env (uri doc))"
    and "\<not> hasConfigOf env doc"
  shows "fst (format env text doc customOptions) = Inr (JStr text)
         \<and> \<not> list_ex is_format_call (snd (format env text doc customOptions))
         \<and> \<not> list_ex is_lint_call (snd (format env text doc customOptions))"
proof -
  from assms have "skips env doc"
    by (simp add: skips_def)
  then show ?thesis
    by (simp add: format_skips)
qed

theorem format_requires_config_witness:
  "requireConfig (getConfig strictEnv (uri (exampleDoc ''javascript'')))
   \<and> \<not> hasConfigOf strictEnv (exampleDoc ''javascript'')
   \<and> fst (format strictEnv ''const x=1'' (exampleDoc ''javascript'') Map.empty) = Inr (JStr ''const x=1'')
   \<and> \<not> list_ex is_format_call
         (snd (format strictEnv ''const x=1'' (exampleDoc ''javascript'') Map.empty))
   \<and> \<not> list_ex is_lint_call
         (snd (format strictEnv ''const x=1'' (exampleDoc ''javascript'') Map.empty))"
  using format_requires_config [of strictEnv "exampleDoc ''javascript''" "''const x=1''" Map.empty]
  by (simp add: strictEnv_def exampleEnv_def exampleConfig_def hasConfigOf_eq examplePrettier_def)

text \<open>
  C2. For every key, the merged configuration takes the call-site (additional) value when
  that layer has the key; otherwise the project-file value when that layer has the key;
  otherwise the host layer decides: with a project configuration only the seeded \<open>parser\<close>
  key is left of it, without one all its keys are. The value is taken whole, nested objects
  included, so the merge is shallow and the last writer wins.
\<close>

theorem mergeConfig_precedence:
  "(additionalConfig k = Some v \<longrightarrow>
      mergeConfig hasConfig additionalConfig prettierConfig vscodeConfig k = Some v)
   \<and> (additionalConfig k = None \<and> prettierConfig k = Some v \<longrightarrow>
      mergeConfig hasConfig additionalConfig prettierConfig vscodeConfig k = Some v)
   \<and> (additionalConfig k = None \<and> prettierConfig k = None \<longrightarrow>
      mergeConfig hasConfig additionalConfig prettierConfig vscodeConfig k =
        (if hasConfig then (if k = ''parser'' then Some (getProp vscodeConfig ''parser'') else None)
         else vscodeConfig k))"
  by (simp add: mergeConfig_def map_add_def)

theorem mergeConfig_precedence_witness:
  "[''rangeStart'' \<mapsto> JNum 0, ''semi'' \<mapsto> JBool False] ''semi'' = Some (JBool False)
   \<and> mergeConfig False [''rangeStart'' \<mapsto> JNum 0, ''semi'' \<mapsto> JBool False]
        [''semi'' \<mapsto> JBool True, ''parser'' \<mapsto> JStr ''flow'',
         ''overrides'' \<mapsto> JObj [(''files'', JStr ''*.js'')]]
        [''parser'' \<mapsto> JStr ''babylon'', ''semi'' \<mapsto> JBool True,
         ''overrides'' \<mapsto> JObj [(''files'', JStr ''*.ts''), (''excludeFiles'', JNull)]]
        ''semi'' = Some (JBool False)
   \<and> [''rangeStart'' \<mapsto> JNum 0, ''semi'' \<mapsto> JBool False] ''overrides'' = None
   \<and> [''semi'' \<mapsto> JBool True, ''parser'' \<mapsto> JStr ''flow'',
         ''overrides'' \<mapsto> JObj [(''files'', JStr ''*.js'')]] ''overrides''
        = Some (JObj [(''files'', JStr ''*.js'')])
   \<and> mergeConfig False [''rangeStart'' \<mapsto> JNum 0, ''semi'' \<mapsto> JBool False]
        [''semi'' \<mapsto> JBool True, ''parser'' \<mapsto> JStr ''flow'',
         ''overrides'' \<mapsto> JObj [(''files'', JStr ''*.js'')]]
        [''parser'' \<mapsto> JStr ''babylon'', ''semi'' \<mapsto> JBool True,
         ''overrides'' \<mapsto> JObj [(''files'', JStr ''*.ts''), (''excludeFiles'', JNull)]]
        ''overrides'' = Some (JObj [(''files'', JStr ''*.js'')])"
  using mergeConfig_precedence [of "[''rangeStart'' \<mapsto> JNum 0, ''semi'' \<mapsto> JBool False]"
      "''semi''" "JBool False" False
      "[''semi'' \<mapsto> JBool True, ''parser'' \<mapsto> JStr ''flow'',
        ''overrides'' \<mapsto> JObj [(''files'', JStr ''*.js'')]]"
      "[''parser'' \<mapsto> JStr ''babylon'', ''semi'' \<mapsto> JBool True,
        ''overrides'' \<mapsto> JObj [(''files'', JStr ''*.ts''), (''excludeFiles'', JNull)]]"]
    mergeConfig_precedence [of "[''rangeStart'' \<mapsto> JNum 0, ''semi'' \<mapsto> JBool False]"
      "''overrides''" "JObj [(''files'', JStr ''*.js'')]" False
      "[''semi'' \<mapsto> JBool True, ''parser'' \<mapsto> JStr ''flow'',
        ''overrides'' \<mapsto> JObj [(''files'', JStr ''*.js'')]]"
      "[''parser'' \<mapsto> JStr ''babylon'', ''semi'' \<mapsto> JBool True,
        ''overrides'' \<mapsto> JObj [(''files'', JStr ''*.ts''), (''excludeFiles'', JNull)]]"]
  by simp

text \<open>
  C8. For every document that is not untitled and whose file path the ignore predicate
  reports as ignored, both public edit operations return an empty edit list and make no
  call: no configuration is resolved, nothing is formatted or linted.
\<close>

theorem ignored_file_no_edits:
  assumes "\<not> isUntitled doc" and "fileIsIgnored this (fileName doc)"
  shows "provideDocumentFormattingEdits env this doc = (Inr [], [])
         \<and> provideDocumentRangeFormattingEdits env this doc rng = (Inr [], [])"
  using assms
  by (simp add: provideDocumentFormattingEdits_def provideDocumentRangeFormattingEdits_def
        provideEdits_def)

theorem ignored_file_no_edits_witness:
  "\<not> isUntitled (exampleDoc ''javascript'')
   \<and> fileIsIgnored ignoringProvider (fileName (exampleDoc ''javascript''))
   \<and> provideDocumentFormattingEdits exampleEnv ignoringProvider (exampleDoc ''javascript'')
       = (Inr [], [])
   \<and> provideDocumentRangeFormattingEdits exampleEnv ignoringProvider (exampleDoc ''javascript'')
        (Range 0 0 0 5) = (Inr [], [])"
  using ignored_file_no_edits [of "exampleDoc ''javascript''" ignoringProvider exampleEnv
      "Range 0 0 0 5"]
  by (simp add: exampleDoc_def ignoringProvider_def)

text \<open>
  C9. Through either operation, a request that is neither ignored nor skipped calls the
  formatter exactly once, on the full text of the document, with the engine and the host
  and project layers that the document alone determines; the requested range only enters
  the call-site layer, as \<open>rangeStart\<close> and \<open>rangeEnd\<close>. No call of the formatter is ever
  made on another text. A request that is not ignored returns a single edit, whose span
  goes from position (0, 0) to the end of the last line and whose text is what \<open>format\<close>
  resolved to; a result that is not empty is always such an edit.
\<close>

theorem edits_replace_whole_document:
  "list_all (formats_with (engineOf env doc) (getText doc) (prettierOptionsOf env doc Map.empty))
     (snd (provideDocumentFormattingEdits env this doc))
   \<and> list_all
       (formats_with (engineOf env doc) (getText doc)
          (prettierOptionsOf env doc
             [''rangeStart'' \<mapsto> JNum (offsetAt doc (range_start rng)),
              ''rangeEnd'' \<mapsto> JNum (offsetAt doc (range_end rng))]))
       (snd (provideDocumentRangeFormattingEdits env this doc rng))
   \<and> (fst (provideDocumentFormattingEdits env this doc) = Inr edits
        \<or> fst (provideDocumentRangeFormattingEdits env this doc rng) = Inr edits \<longrightarrow>
      edits = [] \<or>
      (\<exists>code. edits = [TextEdit_replace
         (Range 0 0 (lineCount doc - 1) (int (length (last (lineTexts doc))))) code]))
   \<and> (\<not> (\<not> isUntitled doc \<and> fileIsIgnored this (fileName doc)) \<and> \<not> skips env doc \<longrightarrow>
        filter is_format_call (snd (provideDocumentFormattingEdits env this doc))
          = [PrettierFormat (engineOf env doc) (getText doc)
               (prettierOptionsOf env doc Map.empty)]
        \<and> filter is_format_call (snd (provideDocumentRangeFormattingEdits env this doc rng))
          = [PrettierFormat (engineOf env doc) (getText doc)
               (prettierOptionsOf env doc
                  [''rangeStart'' \<mapsto> JNum (offsetAt doc (range_start rng)),
                   ''rangeEnd'' \<mapsto> JNum (offsetAt doc (range_end rng))])])
   \<and> (\<not> (\<not> isUntitled doc \<and> fileIsIgnored this (fileName doc)) \<and> lineTexts doc \<noteq> [] \<longrightarrow>
        (\<exists>code. fst (format env (getText doc) doc Map.empty) = Inr code
           \<and> fst (provideDocumentFormattingEdits env this doc)
               = Inr [TextEdit_replace
                        (Range 0 0 (lineCount doc - 1) (int (length (last (lineTexts doc)))))
                        code])
        \<and> (\<exists>code. fst (format env (getText doc) doc
                           [''rangeStart'' \<mapsto> JNum (offsetAt doc (range_start rng)),
                            ''rangeEnd'' \<mapsto> JNum (offsetAt doc (range_end rng))]) = Inr code
           \<and> fst (provideDocumentRangeFormattingEdits env this doc rng)
               = Inr [TextEdit_replace
                        (Range 0 0 (lineCount doc - 1) (int (length (last (lineTexts doc)))))
                        code]))"
proof -
  have calls: "list_all (formats_with (engineOf env doc) (getText doc) (prettierOptionsOf env doc co))
                 (snd (provideEdits env this doc co))" for co
    by (simp add: provideEdits_events format_calls)
  have shape: "edits = [] \<or>
      (\<exists>code. edits = [TextEdit_replace
         (Range 0 0 (lineCount doc - 1) (int (length (last (lineTexts doc))))) code])"
    if "fst (provideEdits env this doc co) = Inr edits" for co
    using that by (rule provideEdits_value)
  have once: "filter is_format_call (snd (provideEdits env this doc co))
                = [PrettierFormat (engineOf env doc) (getText doc) (prettierOptionsOf env doc co)]"
    if "\<not> (\<not> isUntitled doc \<and> fileIsIgnored this (fileName doc))" and "\<not> skips env doc" for co
    using that by (simp add: provideEdits_events format_formatter_calls)
  have edit: "\<exists>code. fst (format env (getText doc) doc co) = Inr code
           \<and> fst (provideEdits env this doc co) =
               Inr [TextEdit_replace
                      (Range 0 0 (lineCount doc - 1) (int (length (last (lineTexts doc))))) code]"
    if "\<not> (\<not> isUntitled doc \<and> fileIsIgnored this (fileName doc))" and "lineTexts doc \<noteq> []" for co
    using that by (rule provideEdits_result)
  show ?thesis
    unfolding provideDocumentFormattingEdits_def provideDocumentRangeFormattingEdits_def
    using calls shape once edit by blast
qed

theorem edits_replace_whole_document_witness:
  "\<not> (\<not> isUntitled (exampleDoc ''javascript'')
        \<and> fileIsIgnored exampleProvider (fileName (exampleDoc ''javascript'')))
   \<and> \<not> skips exampleEnv (exampleDoc ''javascript'')
   \<and> lineTexts (exampleDoc ''javascript'') \<noteq> []
   \<and> getText (exampleDoc ''javascript'') = ''const x=1''
   \<and> filter is_format_call
        (snd (provideDocumentFormattingEdits exampleEnv exampleProvider (exampleDoc ''javascript'')))
      = [PrettierFormat LocalPrettier ''const x=1''
           (prettierOptionsOf exampleEnv (exampleDoc ''javascript'') Map.empty)]
   \<and> filter is_format_call
        (snd (provideDocumentRangeFormattingEdits exampleEnv exampleProvider
                (exampleDoc ''javascript'') (Range 0 0 0 5)))
      = [PrettierFormat LocalPrettier ''const x=1''
           (prettierOptionsOf exampleEnv (exampleDoc ''javascript'')
              [''rangeStart'' \<mapsto> JNum 0, ''rangeEnd'' \<mapsto> JNum 5])]
   \<and> fst (provideDocumentFormattingEdits exampleEnv exampleProvider (exampleDoc ''javascript''))
      = Inr [TextEdit_replace (Range 0 0 0 9) (JStr ''const x=1;'')]
   \<and> fst (provideDocumentRangeFormattingEdits exampleEnv exampleProvider
             (exampleDoc ''javascript'') (Range 0 0 0 5))
      = Inr [TextEdit_replace (Range 0 0 0 9) (JStr ''const x=1;'')]"
proof -
  have doc: "\<not> (\<not> isUntitled (exampleDoc ''javascript'')
        \<and> fileIsIgnored exampleProvider (fileName (exampleDoc ''javascript'')))"
    "lineTexts (exampleDoc ''javascript'') \<noteq> []"
    "getText (exampleDoc ''javascript'') = ''const x=1''"
    "lineCount (exampleDoc ''javascript'') - 1 = 0"
    "int (length (last (lineTexts (exampleDoc ''javascript'')))) = 9"
    "offsetAt (exampleDoc ''javascript'') (range_start (Range 0 0 0 5)) = 0"
    "offsetAt (exampleDoc ''javascript'') (range_end (Range 0 0 0 5)) = 5"
    by (simp_all add: exampleDoc_def exampleProvider_def lineCount_def Range_def)
  from edits_replace_whole_document [of exampleEnv "exampleDoc ''javascript''" exampleProvider
      "Range 0 0 0 5" "[]"]
  show ?thesis
    by (simp add: doc example_not_skipped example_engine example_value)
qed

text \<open>
  C10. The wrapper \<open>resolveConfig\<close> is never rejected. If the library's config resolution
  throws or is rejected, it resolves with config \<open>null\<close> and the error field set, and
  \<open>hasPrettierConfig\<close> resolves to false; so, when the host requires a project
  configuration, a config-discovery error makes \<open>format\<close> return the input text without
  invoking the formatter or the linter.
\<close>

theorem config_discovery_error:
  "(\<exists>res. fst (resolveConfig env p opts) = Inr res)
   \<and> (prettier_resolveConfig (bundledPrettier env) p opts = Inl e \<longrightarrow>
        fst (resolveConfig env p opts) = Inr \<lparr>config = None, error = Some e\<rparr>)
   \<and> (prettier_resolveConfig (bundledPrettier env) p None = Inl e \<longrightarrow>
        fst (hasPrettierConfig env p) = Inr False)
   \<and> (prettier_resolveConfig (bundledPrettier env) (fileName doc) None = Inl e
        \<and> requireConfig (getConfig env (uri doc)) \<longrightarrow>
        fst (format env text doc customOptions) = Inr (JStr text)
        \<and> \<not> list_ex is_format_call (snd (format env text doc customOptions))
        \<and> \<not> list_ex is_lint_call (snd (format env text doc customOptions)))"
proof -
  have "skips env doc"
    if "prettier_resolveConfig (bundledPrettier env) (fileName doc) None = Inl e"
      and "requireConfig (getConfig env (uri doc))"
    using that by (simp add: skips_def hasConfigOf_eq)
  then show ?thesis
    by (auto simp: resolveConfig_def hasPrettierConfig_eq format_skips split: sum.splits)
qed

theorem config_discovery_error_witness:
  "prettier_resolveConfig (bundledPrettier brokenResolveEnv) (fileName (exampleDoc ''javascript''))
     None = Inl (Error ''EACCES'')
   \<and> requireConfig (getConfig brokenResolveEnv (uri (exampleDoc ''javascript'')))
   \<and> fst (resolveConfig brokenResolveEnv (fileName (exampleDoc ''javascript'')) None)
       = Inr \<lparr>config = None, error = Some (Error ''EACCES'')\<rparr>
   \<and> fst (hasPrettierConfig brokenResolveEnv (fileName (exampleDoc ''javascript''))) = Inr False
   \<and> fst (format brokenResolveEnv ''const x=1'' (exampleDoc ''javascript'') Map.empty)
       = Inr (JStr ''const x=1'')
   \<and> \<not> list_ex is_format_call
         (snd (format brokenResolveEnv ''const x=1'' (exampleDoc ''javascript'') Map.empty))
   \<and> \<not> list_ex is_lint_call
         (snd (format brokenResolveEnv ''const x=1'' (exampleDoc ''javascript'') Map.empty))"
  using config_discovery_error [of brokenResolveEnv "fileName (exampleDoc ''javascript'')" None
      "Error ''EACCES''" "exampleDoc ''javascript''" "''const x=1''" Map.empty]
  by (simp add: brokenResolveEnv_def strictEnv_def exampleEnv_def exampleConfig_def
        examplePrettier_def)

text \<open>
  C1. If a call of the formatter or of the linter autofix made by \<open>format\<close> throws or is
  rejected, the promise of \<open>format\<close> is fulfilled with the original input text, not
  rejected, and an error report is recorded.
\<close>

theorem format_failure_recovers:
  assumes "list_ex (failed_call env doc) (snd (format env text doc customOptions))"
  shows "fst (format env text doc customOptions) = Inr (JStr text)
         \<and> list_ex is_error_report (snd (format env text doc customOptions))"
proof (cases "skips env doc")
  case True
  from assms obtain ev where "ev \<in> set (snd (format env text doc customOptions))"
    and "is_format_call ev \<or> is_lint_call ev"
    using failed_call_is_call by (auto simp: list_ex_iff)
  with format_skips(2,3) [OF True, of "text" customOptions] show ?thesis
    by (auto simp: list_ex_iff)
next
  case False
  let ?P = "prettierOf env doc (engineOf env doc)"
  let ?opts = "prettierOptionsOf env doc customOptions"
  show ?thesis
  proof (cases "prettier_format ?P text ?opts")
    case (Inl e)
    then show ?thesis
      by (simp add: format_run [OF False] pipeline_format_fails)
  next
    case (Inr pretty)
    show ?thesis
    proof (cases "standard_lintText env pretty lintOptions")
      case (Inl e)
      with Inr show ?thesis
        by (simp add: format_run [OF False] pipeline_lint_fails)
    next
      case lint: (Inr rep)
      show ?thesis
      proof (cases "results rep")
        case Nil
        with Inr lint show ?thesis
          by (simp add: format_run [OF False] pipeline_no_results)
      next
        case (Cons r rs)
        with Inr lint assms show ?thesis
          by (simp add: format_run [OF False] pipeline_succeeds preamble_no_calls)
      qed
    qed
  qed
qed

lemma broken_format_not_skipped: "\<not> skips brokenFormatEnv (exampleDoc ''javascript'')"
  by (simp add: skips_def hasConfigOf_eq brokenFormatEnv_def exampleEnv_def exampleDoc_def
        exampleConfig_def examplePrettier_def)

lemma broken_format_engine: "engineOf brokenFormatEnv (exampleDoc ''javascript'') = LocalPrettier"
  by (simp add: engineOf_def parserOf_def useBundledOf_def selectParser_def
        doesParserSupportEslint_def brokenFormatEnv_def exampleEnv_def exampleDoc_def
        exampleConfig_def exampleParsers_def exampleGroup_def examplePrettier_def)

lemma broken_format_fails:
  "prettier_format (prettierOf brokenFormatEnv (exampleDoc ''javascript'') LocalPrettier) t opts
     = Inl (Error ''SyntaxError'')"
  by (simp add: prettierOf_def brokenFormatEnv_def exampleEnv_def examplePrettier_def)

lemma broken_lint_not_skipped: "\<not> skips brokenLintEnv (exampleDoc ''javascript'')"
  by (simp add: skips_def hasConfigOf_eq brokenLintEnv_def exampleEnv_def exampleDoc_def
        exampleConfig_def examplePrettier_def)

lemma broken_lint_format:
  "prettier_format (prettierOf brokenLintEnv doc eng) t opts = Inr (t @ '';'')"
  by (cases eng) (simp_all add: prettierOf_def brokenLintEnv_def exampleEnv_def examplePrettier_def)

lemma broken_lint_fails: "standard_lintText brokenLintEnv t opts = Inl (Error ''lint failed'')"
  by (simp add: brokenLintEnv_def exampleEnv_def)

theorem format_failure_recovers_witness:
  "list_ex (failed_call brokenFormatEnv (exampleDoc ''javascript''))
     (snd (format brokenFormatEnv ''const x='' (exampleDoc ''javascript'') Map.empty))
   \<and> fst (format brokenFormatEnv ''const x='' (exampleDoc ''javascript'') Map.empty)
       = Inr (JStr ''const x='')
   \<and> list_ex is_error_report
       (snd (format brokenFormatEnv ''const x='' (exampleDoc ''javascript'') Map.empty))
   \<and> list_ex (failed_call brokenLintEnv (exampleDoc ''javascript''))
       (snd (format brokenLintEnv ''const x=1'' (exampleDoc ''javascript'') Map.empty))
   \<and> fst (format brokenLintEnv ''const x=1'' (exampleDoc ''javascript'') Map.empty)
       = Inr (JStr ''const x=1'')
   \<and> list_ex is_error_report
       (snd (format brokenLintEnv ''const x=1'' (exampleDoc ''javascript'') Map.empty))"
proof -
  have fmt: "list_ex (failed_call brokenFormatEnv (exampleDoc ''javascript''))
          (snd (format brokenFormatEnv ''const x='' (exampleDoc ''javascript'') Map.empty))"
    by (simp add: format_run [OF broken_format_not_skipped] pipeline_events broken_format_engine
          broken_format_fails)
  have lint: "list_ex (failed_call brokenLintEnv (exampleDoc ''javascript''))
          (snd (format brokenLintEnv ''const x=1'' (exampleDoc ''javascript'') Map.empty))"
    by (simp add: format_run [OF broken_lint_not_skipped] pipeline_events broken_lint_format
          broken_lint_fails)
  from format_failure_recovers [OF fmt] format_failure_recovers [OF lint] fmt lint
  show ?thesis by simp
qed


lemma typescript_not_skipped: "\<not> skips exampleEnv (exampleDoc ''typescript'')"
  by (simp add: skips_def hasConfigOf_eq exampleEnv_def exampleDoc_def exampleConfig_def
        examplePrettier_def)

lemma typescript_select:
  "selectParser exampleEnv (getConfig exampleEnv (uri (exampleDoc ''typescript'')))
     (requireLocalPkg exampleEnv (fileName (exampleDoc ''typescript'')) ''prettier'')
     (exampleDoc ''typescript'') = (''typescript'', True)"
  by (simp add: selectParser_def exampleEnv_def exampleDoc_def exampleParsers_def
        examplePrettier_def)

lemma typescript_not_eslint: "\<not> doesParserSupportEslint exampleEnv ''typescript''"
  by (simp add: doesParserSupportEslint_def exampleEnv_def exampleGroup_def)




lemma resolveFailure_not_warning: "resolveFailure f \<noteq> fallbackWarning lp l bp"
  by (simp add: resolveFailure_def fallbackWarning_def)

lemma format_warnings:
  assumes "\<not> skips env doc"
  shows "filter (is_output (fallbackWarning (requireLocalPkg env (fileName doc) ''prettier'')
                   (languageId doc) (bundledPrettier env)))
           (snd (format env text doc co))
         = (case engineOf env doc of
              BundledPrettier \<Rightarrow>
                [AddToOutput (fallbackWarning (requireLocalPkg env (fileName doc) ''prettier'')
                                (languageId doc) (bundledPrettier env))]
            | LocalPrettier \<Rightarrow> [])"
  using assms resolveFailure_not_warning
  by (simp add: format_run pipeline_events preamble_def
        split: sum.splits list.splits engine.splits)

text \<open>
  C4, as the code has it. For every document whose language gets no candidate parser from
  the project-local formatter, the selector takes the first candidate of the bundled
  formatter, or \<open>babylon\<close> when there is none (or when it is the empty string), and sets
  \<open>useBundled\<close>. When the request is not skipped and the selected parser is not in the
  JavaScript group, the one call of the formatter is made on the bundled engine, which is
  recorded as the module in use, and the fallback warning is logged exactly once. When the
  request is not skipped and the selected parser is in the JavaScript group, the one call of
  the formatter is made on the project-local engine and no fallback warning is logged. When
  the request is skipped, no engine is called and no fallback warning is logged.
\<close>

theorem bundled_fallback:
  assumes "getParsersFromLanguageId env (languageId doc)
             (version (requireLocalPkg env (fileName doc) ''prettier''))
             (if isUntitled doc then None else Some (fileName doc)) = []"
  shows "selectParser env (getConfig env (uri doc))
           (requireLocalPkg env (fileName doc) ''prettier'') doc
         = (case getParsersFromLanguageId env (languageId doc) (version (bundledPrettier env))
                   (if isUntitled doc then None else Some (fileName doc)) of
              [] \<Rightarrow> ''babylon''
            | p # ps \<Rightarrow> if p = [] then ''babylon'' else p, True)
         \<and> (\<not> skips env doc \<and> \<not> doesParserSupportEslint env (parserOf env doc) \<longrightarrow>
              engineOf env doc = BundledPrettier
              \<and> filter is_format_call (snd (format env text doc customOptions))
                  = [PrettierFormat BundledPrettier text (prettierOptionsOf env doc customOptions)]
              \<and> SetUsedModule ''prettier'' (version (bundledPrettier env)) True
                  \<in> set (snd (format env text doc customOptions))
              \<and> length (filter (is_output (fallbackWarning
                           (requireLocalPkg env (fileName doc) ''prettier'')
                           (languageId doc) (bundledPrettier env)))
                         (snd (format env text doc customOptions))) = 1)
         \<and> (\<not> skips env doc \<and> doesParserSupportEslint env (parserOf env doc) \<longrightarrow>
              engineOf env doc = LocalPrettier
              \<and> filter is_format_call (snd (format env text doc customOptions))
                  = [PrettierFormat LocalPrettier text (prettierOptionsOf env doc customOptions)]
              \<and> SetUsedModule ''prettier''
                    (version (requireLocalPkg env (fileName doc) ''prettier'')) False
                  \<in> set (snd (format env text doc customOptions))
              \<and> length (filter (is_output (fallbackWarning
                           (requireLocalPkg env (fileName doc) ''prettier'')
                           (languageId doc) (bundledPrettier env)))
                         (snd (format env text doc customOptions))) = 0)
         \<and> (skips env doc \<longrightarrow>
              filter is_format_call (snd (format env text doc customOptions)) = []
              \<and> length (filter (is_output (fallbackWarning
                           (requireLocalPkg env (fileName doc) ''prettier'')
                           (languageId doc) (bundledPrettier env)))
                         (snd (format env text doc customOptions))) = 0)"
proof -
  have sel: "selectParser env (getConfig env (uri doc))
           (requireLocalPkg env (fileName doc) ''prettier'') doc
         = (case getParsersFromLanguageId env (languageId doc) (version (bundledPrettier env))
                   (if isUntitled doc then None else Some (fileName doc)) of
              [] \<Rightarrow> ''babylon''
            | p # ps \<Rightarrow> if p = [] then ''babylon'' else p, True)"
    using assms by (simp add: selectParser_def)
  then have "useBundledOf env doc"
    by (simp add: useBundledOf_def)
  then have eng: "engineOf env doc =
               (if doesParserSupportEslint env (parserOf env doc) then LocalPrettier
                else BundledPrettier)"
    by (simp add: engineOf_def)
  have bundled: "SetUsedModule ''prettier'' (version (bundledPrettier env)) True
                   \<in> set (snd (format env text doc customOptions))"
    if "\<not> skips env doc" and "\<not> doesParserSupportEslint env (parserOf env doc)"
    using that by (simp add: format_run pipeline_events preamble_def eng)
  have local: "SetUsedModule ''prettier''
                 (version (requireLocalPkg env (fileName doc) ''prettier'')) False
                 \<in> set (snd (format env text doc customOptions))"
    if "\<not> skips env doc" and "doesParserSupportEslint env (parserOf env doc)"
    using that by (simp add: format_run pipeline_events preamble_def eng)
  show ?thesis
    using bundled local
    by (simp add: sel eng format_warnings format_formatter_calls format_skips_no_warning)
qed

theorem bundled_fallback_witness:
  "getParsersFromLanguageId exampleEnv (languageId (exampleDoc ''typescript''))
     (version (requireLocalPkg exampleEnv (fileName (exampleDoc ''typescript'')) ''prettier''))
     (if isUntitled (exampleDoc ''typescript'') then None
      else Some (fileName (exampleDoc ''typescript''))) = []
   \<and> getParsersFromLanguageId exampleEnv (languageId (exampleDoc ''typescript''))
       (version (bundledPrettier exampleEnv))
       (if isUntitled (exampleDoc ''typescript'') then None
        else Some (fileName (exampleDoc ''typescript''))) = [''typescript'']
   \<and> \<not> skips exampleEnv (exampleDoc ''typescript'')
   \<and> \<not> doesParserSupportEslint exampleEnv (parserOf exampleEnv (exampleDoc ''typescript''))
   \<and> selectParser exampleEnv (getConfig exampleEnv (uri (exampleDoc ''typescript'')))
       (requireLocalPkg exampleEnv (fileName (exampleDoc ''typescript'')) ''prettier'')
       (exampleDoc ''typescript'') = (''typescript'', True)
   \<and> filter is_format_call
        (snd (format exampleEnv ''let x: number=1'' (exampleDoc ''typescript'') Map.empty))
      = [PrettierFormat BundledPrettier ''let x: number=1''
           (prettierOptionsOf exampleEnv (exampleDoc ''typescript'') Map.empty)]
   \<and> SetUsedModule ''prettier'' (version (bundledPrettier exampleEnv)) True
        \<in> set (snd (format exampleEnv ''let x: number=1'' (exampleDoc ''typescript'') Map.empty))
   \<and> length (filter (is_output (fallbackWarning
                (requireLocalPkg exampleEnv (fileName (exampleDoc ''typescript'')) ''prettier'')
                (languageId (exampleDoc ''typescript'')) (bundledPrettier exampleEnv)))
              (snd (format exampleEnv ''let x: number=1'' (exampleDoc ''typescript'')
                      Map.empty))) = 1
   \<and> getParsersFromLanguageId exampleEnv (languageId (exampleDoc ''plaintext''))
       (version (requireLocalPkg exampleEnv (fileName (exampleDoc ''plaintext'')) ''prettier''))
       (if isUntitled (exampleDoc ''plaintext'') then None
        else Some (fileName (exampleDoc ''plaintext''))) = []
   \<and> \<not> skips exampleEnv (exampleDoc ''plaintext'')
   \<and> doesParserSupportEslint exampleEnv (parserOf exampleEnv (exampleDoc ''plaintext''))
   \<and> filter is_format_call
        (snd (format exampleEnv ''hello'' (exampleDoc ''plaintext'') Map.empty))
      = [PrettierFormat LocalPrettier ''hello''
           (prettierOptionsOf exampleEnv (exampleDoc ''plaintext'') Map.empty)]
   \<and> getParsersFromLanguageId strictEnv (languageId (exampleDoc ''typescript''))
       (version (requireLocalPkg strictEnv (fileName (exampleDoc ''typescript'')) ''prettier''))
       (if isUntitled (exampleDoc ''typescript'') then None
        else Some (fileName (exampleDoc ''typescript''))) = []
   \<and> skips strictEnv (exampleDoc ''typescript'')
   \<and> filter is_format_call
        (snd (format strictEnv ''let x: number=1'' (exampleDoc ''typescript'') Map.empty)) = []
   \<and> length (filter (is_output (fallbackWarning
                (requireLocalPkg strictEnv (fileName (exampleDoc ''typescript'')) ''prettier'')
                (languageId (exampleDoc ''typescript'')) (bundledPrettier strictEnv)))
              (snd (format strictEnv ''let x: number=1'' (exampleDoc ''typescript'')
                      Map.empty))) = 0"
proof -
  have local: "getParsersFromLanguageId exampleEnv (languageId (exampleDoc ''typescript''))
     (version (requireLocalPkg exampleEnv (fileName (exampleDoc ''typescript'')) ''prettier''))
     (if isUntitled (exampleDoc ''typescript'') then None
      else Some (fileName (exampleDoc ''typescript''))) = []"
    by (simp add: exampleEnv_def exampleDoc_def exampleParsers_def examplePrettier_def)
  have bundled: "getParsersFromLanguageId exampleEnv (languageId (exampleDoc ''typescript''))
       (version (bundledPrettier exampleEnv))
       (if isUntitled (exampleDoc ''typescript'') then None
        else Some (fileName (exampleDoc ''typescript''))) = [''typescript'']"
    by (simp add: exampleEnv_def exampleDoc_def exampleParsers_def examplePrettier_def)
  have ts: "\<not> doesParserSupportEslint exampleEnv (parserOf exampleEnv (exampleDoc ''typescript''))"
    by (simp add: parserOf_def typescript_select typescript_not_eslint)
  have plain_local: "getParsersFromLanguageId exampleEnv (languageId (exampleDoc ''plaintext''))
       (version (requireLocalPkg exampleEnv (fileName (exampleDoc ''plaintext'')) ''prettier''))
       (if isUntitled (exampleDoc ''plaintext'') then None
        else Some (fileName (exampleDoc ''plaintext''))) = []"
    by (simp add: exampleEnv_def exampleDoc_def exampleParsers_def examplePrettier_def)
  have plain_ns: "\<not> skips exampleEnv (exampleDoc ''plaintext'')"
    by (simp add: skips_def hasConfigOf_eq exampleEnv_def exampleDoc_def exampleConfig_def
          examplePrettier_def)
  have plain_js: "doesParserSupportEslint exampleEnv (parserOf exampleEnv (exampleDoc ''plaintext''))"
    by (simp add: parserOf_def selectParser_def doesParserSupportEslint_def exampleEnv_def
          exampleDoc_def exampleParsers_def exampleGroup_def examplePrettier_def)
  have strict_local: "getParsersFromLanguageId strictEnv (languageId (exampleDoc ''typescript''))
       (version (requireLocalPkg strictEnv (fileName (exampleDoc ''typescript'')) ''prettier''))
       (if isUntitled (exampleDoc ''typescript'') then None
        else Some (fileName (exampleDoc ''typescript''))) = []"
    by (simp add: strictEnv_def exampleEnv_def exampleDoc_def exampleParsers_def
          examplePrettier_def)
  have strict_skips: "skips strictEnv (exampleDoc ''typescript'')"
    by (simp add: skips_def hasConfigOf_eq strictEnv_def exampleEnv_def exampleDoc_def
          exampleConfig_def examplePrettier_def)
  from bundled_fallback [OF local, of "''let x: number=1''" Map.empty]
    bundled_fallback [OF plain_local, of "''hello''" Map.empty]
    bundled_fallback [OF strict_local, of "''let x: number=1''" Map.empty]
  show ?thesis
    by (simp add: local bundled ts typescript_not_skipped plain_local plain_ns plain_js
          strict_local strict_skips)
qed

text \<open>
  C4 as stated fails: a language that neither formatter knows gets the parser \<open>babylon\<close>,
  which is in the JavaScript group, so the project-local engine formats and no fallback
  warning is logged.
\<close>

theorem bundled_fallback_counterexample:
  "getParsersFromLanguageId exampleEnv (languageId (exampleDoc ''plaintext''))
     (version (requireLocalPkg exampleEnv (fileName (exampleDoc ''plaintext'')) ''prettier''))
     (if isUntitled (exampleDoc ''plaintext'') then None
      else Some (fileName (exampleDoc ''plaintext''))) = []
   \<and> selectParser exampleEnv (getConfig exampleEnv (uri (exampleDoc ''plaintext'')))
       (requireLocalPkg exampleEnv (fileName (exampleDoc ''plaintext'')) ''prettier'')
       (exampleDoc ''plaintext'') = (''babylon'', True)
   \<and> length (filter (is_output (fallbackWarning
                (requireLocalPkg exampleEnv (fileName (exampleDoc ''plaintext'')) ''prettier'')
                (languageId (exampleDoc ''plaintext'')) (bundledPrettier exampleEnv)))
              (snd (format exampleEnv ''hello'' (exampleDoc ''plaintext'') Map.empty))) \<noteq> 1
   \<and> list_ex is_format_call (snd (format exampleEnv ''hello'' (exampleDoc ''plaintext'') Map.empty))
   \<and> list_all
       (formats_with LocalPrettier ''hello''
          (prettierOptionsOf exampleEnv (exampleDoc ''plaintext'') Map.empty))
       (snd (format exampleEnv ''hello'' (exampleDoc ''plaintext'') Map.empty))"
proof -
  have ns: "\<not> skips exampleEnv (exampleDoc ''plaintext'')"
    by (simp add: skips_def hasConfigOf_eq exampleEnv_def exampleDoc_def exampleConfig_def
          examplePrettier_def)
  have sel: "selectParser exampleEnv (getConfig exampleEnv (uri (exampleDoc ''plaintext'')))
       (requireLocalPkg exampleEnv (fileName (exampleDoc ''plaintext'')) ''prettier'')
       (exampleDoc ''plaintext'') = (''babylon'', True)"
    by (simp add: selectParser_def exampleEnv_def exampleDoc_def exampleParsers_def
          examplePrettier_def)
  have js: "doesParserSupportEslint exampleEnv ''babylon''"
    by (simp add: doesParserSupportEslint_def exampleEnv_def exampleGroup_def)
  have eng: "engineOf exampleEnv (exampleDoc ''plaintext'') = LocalPrettier"
    by (simp add: engineOf_def parserOf_def useBundledOf_def sel js)
  have calls: "list_ex is_format_call
                 (snd (format exampleEnv ''hello'' (exampleDoc ''plaintext'') Map.empty))"
    by (simp add: format_run [OF ns] pipeline_events)
  have "getParsersFromLanguageId exampleEnv (languageId (exampleDoc ''plaintext''))
     (version (requireLocalPkg exampleEnv (fileName (exampleDoc ''plaintext'')) ''prettier''))
     (if isUntitled (exampleDoc ''plaintext'') then None
      else Some (fileName (exampleDoc ''plaintext''))) = []"
    by (simp add: exampleEnv_def exampleDoc_def exampleParsers_def examplePrettier_def)
  then show ?thesis
    using format_calls [of exampleEnv "exampleDoc ''plaintext''" "''hello''" Map.empty]
    by (simp add: sel calls format_warnings [OF ns] eng)
qed

lemma hostLayer_parser [simp]: "hostLayer vc p ''parser'' = Some (JStr p)"
  by (simp add: hostLayer_def)

lemma mergeConfig_parser:
  "mergeConfig hc co fo (hostLayer vc p) ''parser'' =
     (case co ''parser'' of
        Some v \<Rightarrow> Some v
      | None \<Rightarrow> (case fo ''parser'' of Some v \<Rightarrow> Some v | None \<Rightarrow> Some (JStr p)))"
  by (simp add: mergeConfig_def map_add_def getProp_def split: option.splits)

lemma format_passes_parser:
  "list_ex (passes_parser v) (snd (format env text doc co)) =
     (\<not> skips env doc \<and> getProp (prettierOptionsOf env doc co) ''parser'' = v)"
proof (cases "skips env doc")
  case True
  have "passes_parser v ev \<Longrightarrow> is_format_call ev" for ev
    by (cases ev) simp_all
  with format_skips(2) [OF True, of "text" co] True show ?thesis
    by (auto simp: list_ex_iff)
next
  case False
  then show ?thesis
    by (simp add: format_run pipeline_events preamble_no_calls split: sum.splits list.splits)
qed

text \<open>
  C7, as the code has it. The merged configuration always has the key \<open>parser\<close>, with or
  without a project configuration: its value is the call-site layer's if that layer has the
  key, else the project layer's if that layer has the key, else the inferred parser, a
  string. So, unless one of the two overriding layers itself carries \<open>parser: undefined\<close>,
  the parser of the merged configuration, and of every call of the formatter, is not
  undefined.
\<close>

theorem merged_parser_defined:
  "prettierOptionsOf env doc customOptions ''parser'' \<noteq> None
   \<and> (customOptions ''parser'' = None \<and> fileOptionsOf env doc ''parser'' = None \<longrightarrow>
        prettierOptionsOf env doc customOptions ''parser'' = Some (JStr (parserOf env doc)))
   \<and> (customOptions ''parser'' \<noteq> Some JUndefined
        \<and> fileOptionsOf env doc ''parser'' \<noteq> Some JUndefined \<longrightarrow>
        getProp (prettierOptionsOf env doc customOptions) ''parser'' \<noteq> JUndefined
        \<and> \<not> list_ex (passes_parser JUndefined) (snd (format env text doc customOptions)))"
  by (auto simp: format_passes_parser prettierOptionsOf_def mergeConfig_parser getProp_def
        split: option.splits)

lemma flow_fileOptions:
  "fileOptionsOf flowConfigEnv doc = [''parser'' \<mapsto> JStr ''flow'', ''semi'' \<mapsto> JBool False]"
  by (simp add: fileOptionsOf_def resolveConfig_def flowConfigEnv_def exampleEnv_def
        examplePrettier_def)

theorem merged_parser_defined_witness:
  "Map.empty ''parser'' \<noteq> Some JUndefined
   \<and> fileOptionsOf flowConfigEnv (exampleDoc ''javascript'') ''parser'' \<noteq> Some JUndefined
   \<and> getProp (prettierOptionsOf flowConfigEnv (exampleDoc ''javascript'') Map.empty) ''parser''
       \<noteq> JUndefined
   \<and> \<not> list_ex (passes_parser JUndefined)
         (snd (format flowConfigEnv ''const x=1'' (exampleDoc ''javascript'') Map.empty))
   \<and> [''rangeStart'' \<mapsto> JNum 0] ''parser'' = None
   \<and> fileOptionsOf exampleEnv (exampleDoc ''javascript'') ''parser'' = None
   \<and> prettierOptionsOf exampleEnv (exampleDoc ''javascript'') [''rangeStart'' \<mapsto> JNum 0]
        ''parser'' = Some (JStr (parserOf exampleEnv (exampleDoc ''javascript'')))"
proof -
  have none: "fileOptionsOf exampleEnv (exampleDoc ''javascript'') ''parser'' = None"
    by (simp add: fileOptionsOf_def resolveConfig_def exampleEnv_def examplePrettier_def)
  show ?thesis
    using merged_parser_defined [of flowConfigEnv "exampleDoc ''javascript''" Map.empty
        "''const x=1''"]
      merged_parser_defined [of exampleEnv "exampleDoc ''javascript''"
        "[''rangeStart'' \<mapsto> JNum 0]" "''const x=1''"]
    by (simp add: flow_fileOptions none)
qed

text \<open>
  C7 as stated fails: when the project configuration is \<open>{ parser: undefined }\<close>, the merge
  copies that property over the seeded parser, and the formatter is called with a
  configuration whose parser is undefined.
\<close>

theorem merged_parser_defined_counterexample:
  "hasConfigOf undefinedParserEnv (exampleDoc ''javascript'')
   \<and> getProp (prettierOptionsOf undefinedParserEnv (exampleDoc ''javascript'') Map.empty)
        ''parser'' = JUndefined
   \<and> list_ex (passes_parser JUndefined)
       (snd (format undefinedParserEnv ''const x=1'' (exampleDoc ''javascript'') Map.empty))"
proof -
  have hc: "hasConfigOf undefinedParserEnv (exampleDoc ''javascript'')"
    by (simp add: hasConfigOf_eq undefinedParserEnv_def exampleEnv_def examplePrettier_def)
  then have ns: "\<not> skips undefinedParserEnv (exampleDoc ''javascript'')"
    by (simp add: skips_def undefinedParserEnv_def exampleEnv_def exampleConfig_def
          exampleDoc_def)
  have fo: "fileOptionsOf undefinedParserEnv (exampleDoc ''javascript'')
              = [''parser'' \<mapsto> JUndefined]"
    by (simp add: fileOptionsOf_def resolveConfig_def undefinedParserEnv_def exampleEnv_def
          examplePrettier_def)
  have "getProp (prettierOptionsOf undefinedParserEnv (exampleDoc ''javascript'') Map.empty)
          ''parser'' = JUndefined"
    by (simp add: prettierOptionsOf_def mergeConfig_parser fo getProp_def)
  with hc ns show ?thesis
    by (simp add: format_passes_parser)
qed

end
